theory Spec2Isabelle
  imports Complex_Main "HOL-Library.List_Lexorder" "HOL-Library.Char_ord"
    "HOL-Library.Product_Lexorder"
begin

section \<open>Python values, strings and errors\<close>

text \<open>
  The repository is a pandas pipeline in three copies: \<^verbatim>\<open>app/pipeline.py\<close> with
  \<^verbatim>\<open>app/main.py\<close> (the HTTP service), \<^verbatim>\<open>testing/segmentation_email_pipeline.py\<close> (the
  command-line script) and an unfinished third copy. Functions whose text differs between
  the service and the script are embedded twice, with the suffixes \<open>_app\<close> and \<open>_cli\<close>;
  functions whose text is the same in both are embedded once.

  A value that may be missing is \<open>PyNone\<close> (Python's None), \<open>NaN\<close> (the float pandas
  stores for a missing entry) or a present value. The two missing values are kept apart
  because the code treats them differently (\<open>None or "there"\<close> is \<open>"there"\<close>, while NaN is
  truthy).

  Strings are byte strings of UTF-8 text, so ASCII text has one \<open>char\<close> per character.
  Floating-point columns are idealised as rationals and timestamps as integers counting
  nanoseconds.
\<close>

datatype 'a cell = PyNone | NaN | Val 'a

datatype error =
    SchemaError "string list"
      \<comment> \<open>\<open>ValueError("Missing required columns: ...")\<close> of \<open>clean_transactions\<close>\<close>
  | EmptyInputError
      \<comment> \<open>\<open>ValueError("No valid transactions to process after cleaning.")\<close> of the script\<close>
  | ConfigError
      \<comment> \<open>the credentials \<open>EMAIL_USER\<close>/\<open>EMAIL_PASS\<close> are not set\<close>
  | TypeError
  | ValueError
  | AttributeError

text \<open>\<open>pd.isna\<close> / \<open>pd.notna\<close> on a scalar.\<close>

definition isna :: "'a cell \<Rightarrow> bool" where
  "isna c = (case c of Val _ \<Rightarrow> False | _ \<Rightarrow> True)"

definition notna :: "'a cell \<Rightarrow> bool" where
  "notna c = (\<not> isna c)"

text \<open>
  \<open>str.strip()\<close>: leading and trailing whitespace removed. The whitespace is the ASCII
  part of what Python strips (tab, line feed, vertical tab, form feed, carriage return,
  the four separators \<open>0x1C\<close> to \<open>0x1F\<close>, space).
\<close>

definition is_space :: "char \<Rightarrow> bool" where
  "is_space c = (c \<in> set [CHR 0x09, CHR 0x0A, CHR 0x0B, CHR 0x0C, CHR 0x0D,
                            CHR 0x1C, CHR 0x1D, CHR 0x1E, CHR 0x1F, CHR 0x20])"

definition strip :: "string \<Rightarrow> string" where
  "strip s = rev (dropWhile is_space (rev (dropWhile is_space s)))"

text \<open>\<open>s.startswith(p)\<close> and \<open>"@" in s\<close>.\<close>

definition startswith :: "string \<Rightarrow> string \<Rightarrow> bool" where
  "startswith s p = (take (length p) s = p)"

definition contains_at :: "string \<Rightarrow> bool" where
  "contains_at s = (CHR ''@'' \<in> set s)"

text \<open>\<open>str(n)\<close> of an integer, as an f-string renders it.\<close>

definition digit_char :: "nat \<Rightarrow> char" where
  "digit_char d = ''0123456789'' ! d"

function str_nat :: "nat \<Rightarrow> string" where
  "str_nat n = (if n < 10 then [digit_char n] else str_nat (n div 10) @ [digit_char (n mod 10)])"
  by pat_completeness auto
termination
  by (relation "measure id") auto

declare str_nat.simps [simp del]

definition str_int :: "int \<Rightarrow> string" where
  "str_int i = (if i < 0 then CHR ''-'' # str_nat (nat (- i)) else str_nat (nat i))"

text \<open>
  \<open>int(s)\<close> of a string: surrounding whitespace is dropped, then an optional sign and a
  non-empty run of decimal digits is read; anything else raises \<open>ValueError\<close>. (Python
  also accepts single underscores between digits; no string of this program has one.)
\<close>

definition is_digit :: "char \<Rightarrow> bool" where
  "is_digit c = (c \<in> set ''0123456789'')"

definition digit_val :: "char \<Rightarrow> int" where
  "digit_val c = int (of_char c) - 48"

definition int_of_digits :: "string \<Rightarrow> error + int" where
  "int_of_digits ds =
     (if ds \<noteq> [] \<and> list_all is_digit ds
      then Inr (foldl (\<lambda>acc c. 10 * acc + digit_val c) 0 ds)
      else Inl ValueError)"

definition int_of_str :: "string \<Rightarrow> error + int" where
  "int_of_str s =
     (case strip s of
        [] \<Rightarrow> Inl ValueError
      | c # cs \<Rightarrow>
          if c = CHR ''-'' then map_sum id uminus (int_of_digits cs)
          else if c = CHR ''+'' then int_of_digits cs
          else int_of_digits (c # cs))"

section \<open>Message composer: \<open>generate_email\<close>\<close>

text \<open>
  The dash of the at-risk subject line: the source file holds the three characters
  U+00E2, U+20AC, U+201D at that place; these are their UTF-8 bytes.
\<close>

definition dash :: string where
  "dash = [CHR 0xC3, CHR 0xA2, CHR 0xE2, CHR 0x82, CHR 0xAC, CHR 0xE2, CHR 0x80, CHR 0x9D]"

text \<open>
  \<open>(x or d).strip()\<close> of \<^verbatim>\<open>app/pipeline.py\<close>: \<open>None\<close> and the empty string are falsy and give
  the default; NaN is a truthy float, and a float has no \<open>strip\<close>.
\<close>

definition or_strip :: "string cell \<Rightarrow> string \<Rightarrow> error + string" where
  "or_strip x d =
     (case x of
        PyNone \<Rightarrow> Inr (strip d)
      | NaN \<Rightarrow> Inl AttributeError
      | Val s \<Rightarrow> Inr (strip (if s = [] then d else s)))"

text \<open>\<open>s or d\<close> on strings.\<close>

definition or_else :: "string \<Rightarrow> string \<Rightarrow> string" where
  "or_else s d = (if s = [] then d else s)"

text \<open>The three templates, shared by both copies of \<open>generate_email\<close>.\<close>

definition vip_email :: "string \<Rightarrow> string \<Rightarrow> string \<times> string" where
  "vip_email name fav =
     (''Exclusive early access just for you'',
      ''Hey '' @ name @ '',\<newline>\<newline>'' @
      ''As one of our VIPs, enjoy early access to new arrivals in '' @ fav @ ''.\<newline>'' @
      ''Thanks for being with us!'')"

definition regular_email :: "string \<Rightarrow> string \<Rightarrow> string \<times> string" where
  "regular_email name fav =
     (''A little thank-you: 15% off '' @ fav,
      ''Hi '' @ name @ '',\<newline>\<newline>'' @
      ''You've been loving our '' @ fav @ ''. Here's 15% off your next order!\<newline>'' @
      ''See what's new and recommended for you.'')"

definition at_risk_subject :: "string \<Rightarrow> string" where
  "at_risk_subject fav = ''We miss you '' @ dash @ '' '' @ fav @ '' waiting for you''"

definition at_risk_body :: "string \<Rightarrow> int \<Rightarrow> string \<Rightarrow> string" where
  "at_risk_body name days fav =
     ''Hey '' @ name @ '',\<newline>\<newline>'' @
     ''It's been '' @ str_int days @ '' days since your last purchase. '' @
     ''Come back for 25% off '' @ fav @ ''!''"

text \<open>
  \<^verbatim>\<open>app/pipeline.py\<close>, \<open>generate_email\<close>. In the last branch the local \<open>days\<close> is the
  integer \<open>int(last_purchase_days)\<close> when the value is present and the string \<open>"many"\<close>
  otherwise; the body then renders \<open>int(days)\<close>.
\<close>

definition generate_email_app ::
  "string cell \<Rightarrow> string \<Rightarrow> int cell \<Rightarrow> string cell \<Rightarrow> error + (string \<times> string)" where
  "generate_email_app name segment last_purchase_days fav_category =
     (case or_strip name ''there'' of
        Inl e \<Rightarrow> Inl e
      | Inr n0 \<Rightarrow>
     (case or_strip fav_category ''Your favourites'' of
        Inl e \<Rightarrow> Inl e
      | Inr f0 \<Rightarrow>
          let name' = or_else n0 ''there'';
              fav = or_else f0 ''your favorites''
          in if segment = ''VIP Customers'' then Inr (vip_email name' fav)
             else if segment = ''Regular Customers'' then Inr (regular_email name' fav)
             else
               let subject = at_risk_subject fav;
                   days = (case last_purchase_days of
                             Val d \<Rightarrow> Inl d
                           | _ \<Rightarrow> Inr ''many'')
               in (case (case days of Inl d \<Rightarrow> Inr d | Inr s \<Rightarrow> int_of_str s) of
                     Inl e \<Rightarrow> Inl e
                   | Inr d \<Rightarrow> Inr (subject, at_risk_body name' d fav))))"

text \<open>
  \<^verbatim>\<open>testing/segmentation_email_pipeline.py\<close>, \<open>generate_email\<close>. The name and the category
  are tested for blankness but used unstripped; \<open>int(last_purchase_days)\<close> is applied
  unconditionally (\<open>int(None)\<close> raises \<open>TypeError\<close>, \<open>int(nan)\<close> raises \<open>ValueError\<close>).
\<close>

definition py_int :: "int cell \<Rightarrow> error + int" where
  "py_int x = (case x of PyNone \<Rightarrow> Inl TypeError | NaN \<Rightarrow> Inl ValueError | Val d \<Rightarrow> Inr d)"

definition generate_email_cli ::
  "string cell \<Rightarrow> string \<Rightarrow> int cell \<Rightarrow> string cell \<Rightarrow> error + (string \<times> string)" where
  "generate_email_cli name segment last_purchase_days fav_category =
     (let name' = (case name of
                     Val s \<Rightarrow> if strip s = [] then ''there'' else s
                   | _ \<Rightarrow> ''there'');
          fav_text = (case fav_category of
                        Val s \<Rightarrow> if strip s \<noteq> [] then s else ''your favorites''
                      | _ \<Rightarrow> ''your favorites'')
      in if segment = ''VIP Customers'' then Inr (vip_email name' fav_text)
         else if segment = ''Regular Customers'' then Inr (regular_email name' fav_text)
         else
           let subject = at_risk_subject fav_text
           in (case py_int last_purchase_days of
                 Inl e \<Rightarrow> Inl e
               | Inr d \<Rightarrow> Inr (subject, at_risk_body name' d fav_text)))"

section \<open>Segment scorer: the static cluster table\<close>

definition CLUSTER_MAP :: "int \<rightharpoonup> string" where
  "CLUSTER_MAP = [0 \<mapsto> ''At-Risk Customers'', 1 \<mapsto> ''Regular Customers'', 2 \<mapsto> ''VIP Customers'']"

text \<open>\<open>out["Cluster"].map(CLUSTER_MAP).fillna("Unknown")\<close> on one entry.\<close>

definition segment_name :: "int \<Rightarrow> string" where
  "segment_name c = (case CLUSTER_MAP c of Some s \<Rightarrow> s | None \<Rightarrow> ''Unknown'')"

section \<open>Transaction cleaner: \<open>clean_transactions\<close>\<close>

text \<open>
  The input table has a list of column names and a list of rows; a row gives each column
  name a cell, which is missing or carries its text (a number read from the file is
  represented by its text). \<open>pd.to_numeric\<close> and \<open>pd.to_datetime\<close> belong to pandas, not
  to the repository: what they make of a text is a parameter of the model, \<open>None\<close> standing
  for the NaN / NaT that \<open>errors="coerce"\<close> produces.
\<close>

record dataframe =
  columns :: "string list"
  rows :: "(string \<Rightarrow> string cell) list"

record parsers =
  parse_numeric :: "string \<Rightarrow> rat option"
  parse_datetime :: "string \<Rightarrow> int option"

definition REQUIRED_COLUMNS :: "string list" where
  "REQUIRED_COLUMNS =
     [''InvoiceNo'', ''StockCode'', ''Description'', ''Quantity'', ''InvoiceDate'', ''UnitPrice'',
      ''CustomerID'', ''Name'', ''Email'', ''Country'']"

text \<open>A row after the "Convert dtypes" block, and a row with its line total.\<close>

record tx =
  InvoiceNo :: string
  StockCode :: string
  Description :: string
  Quantity :: "rat option"
  UnitPrice :: "rat option"
  CustomerID :: "int option"
  InvoiceDate :: "int option"
  Name :: "string cell"
  Email :: "string cell"
  Country :: "string cell"

record priced = tx +
  TotalPrice :: "rat option"

text \<open>\<open>.astype(str)\<close> on one cell.\<close>

definition astype_str :: "string cell \<Rightarrow> string" where
  "astype_str c = (case c of PyNone \<Rightarrow> ''None'' | NaN \<Rightarrow> ''nan'' | Val s \<Rightarrow> s)"

text \<open>\<open>pd.to_numeric(..., errors="coerce")\<close> and \<open>pd.to_datetime(..., errors="coerce")\<close>
  on one cell.\<close>

definition to_numeric :: "parsers \<Rightarrow> string cell \<Rightarrow> rat option" where
  "to_numeric P c = (case c of Val s \<Rightarrow> parse_numeric P s | _ \<Rightarrow> None)"

definition to_datetime :: "parsers \<Rightarrow> string cell \<Rightarrow> int option" where
  "to_datetime P c = (case c of Val s \<Rightarrow> parse_datetime P s | _ \<Rightarrow> None)"

text \<open>
  \<open>.astype("Int64")\<close>: a missing value stays missing, an integral value becomes the integer,
  and a column holding a value with a fractional part is refused with \<open>TypeError\<close>.
\<close>

definition is_integral :: "rat \<Rightarrow> bool" where
  "is_integral q = (of_int (floor q) = q)"

definition fractional :: "rat option \<Rightarrow> bool" where
  "fractional x = (case x of None \<Rightarrow> False | Some q \<Rightarrow> \<not> is_integral q)"

definition astype_Int64 :: "rat option \<Rightarrow> int option" where
  "astype_Int64 x = map_option floor x"

definition convert_dtypes :: "parsers \<Rightarrow> (string \<Rightarrow> string cell) \<Rightarrow> tx" where
  "convert_dtypes P r =
     \<lparr> InvoiceNo = astype_str (r ''InvoiceNo''),
       StockCode = astype_str (r ''StockCode''),
       Description = astype_str (r ''Description''),
       Quantity = to_numeric P (r ''Quantity''),
       UnitPrice = to_numeric P (r ''UnitPrice''),
       CustomerID = astype_Int64 (to_numeric P (r ''CustomerID'')),
       InvoiceDate = to_datetime P (r ''InvoiceDate''),
       Name = r ''Name'',
       Email = r ''Email'',
       Country = r ''Country'' \<rparr>"

text \<open>\<open>x > 0\<close> on a numeric column: the comparison is false on NaN.\<close>

definition positive :: "rat option \<Rightarrow> bool" where
  "positive x = (case x of None \<Rightarrow> False | Some q \<Rightarrow> 0 < q)"

text \<open>\<open>df["Quantity"] * df["UnitPrice"]\<close>: NaN if either factor is.\<close>

definition line_total :: "rat option \<Rightarrow> rat option \<Rightarrow> rat option" where
  "line_total q p = (case (q, p) of (Some a, Some b) \<Rightarrow> Some (a * b) | _ \<Rightarrow> None)"

definition with_total :: "tx \<Rightarrow> priced" where
  "with_total r = tx.extend r (priced.fields (line_total (Quantity r) (UnitPrice r)))"

text \<open>
  \<open>clean_transactions\<close> (the same text in every copy): the schema check, the dtype
  conversion, the three filters in the source's order, the line total. Columns beyond
  the required ten are carried along by the source and play no part; they are left out.
\<close>

definition clean_transactions :: "parsers \<Rightarrow> dataframe \<Rightarrow> error + priced list" where
  "clean_transactions P df =
     (let missing = filter (\<lambda>c. c \<notin> set (columns df)) REQUIRED_COLUMNS
      in if missing \<noteq> [] then Inl (SchemaError missing)
         else if list_ex (\<lambda>r. fractional (to_numeric P (r ''CustomerID''))) (rows df)
         then Inl TypeError
         else
           let df1 = map (convert_dtypes P) (rows df);
               df2 = filter (\<lambda>r. \<not> startswith (InvoiceNo r) ''C'') df1;
               df3 = filter (\<lambda>r. positive (Quantity r) \<and> positive (UnitPrice r)) df2;
               df4 = filter (\<lambda>r. CustomerID r \<noteq> None \<and> InvoiceDate r \<noteq> None
                                  \<and> notna (Email r)) df3
           in Inr (map with_total df4))"

text \<open>Concrete tables for the closed instances below: a row from its (column, cell)
  pairs, and parsers that read decimal integers.\<close>

definition row_of :: "(string \<times> string cell) list \<Rightarrow> string \<Rightarrow> string cell" where
  "row_of kvs c = (case map_of kvs c of Some v \<Rightarrow> v | None \<Rightarrow> NaN)"

definition decimal_parsers :: parsers where
  "decimal_parsers =
     \<lparr> parse_numeric = (\<lambda>s. case int_of_str s of Inr i \<Rightarrow> Some (of_int i) | Inl _ \<Rightarrow> None),
       parse_datetime = (\<lambda>s. case int_of_str s of Inr i \<Rightarrow> Some i | Inl _ \<Rightarrow> None) \<rparr>"

definition raw_row ::
  "string \<Rightarrow> string \<Rightarrow> string \<Rightarrow> string \<Rightarrow> string \<Rightarrow> string \<Rightarrow> string cell \<Rightarrow> string cell
     \<Rightarrow> string \<Rightarrow> string cell" where
  "raw_row invoice descr qty date price cust name email =
     row_of [(''InvoiceNo'', Val invoice), (''StockCode'', Val ''S1''), (''Description'', Val descr),
             (''Quantity'', Val qty), (''InvoiceDate'', Val date), (''UnitPrice'', Val price),
             (''CustomerID'', Val cust), (''Name'', name), (''Email'', email),
             (''Country'', Val ''UK'')]"

section \<open>Customer feature aggregator: \<open>derive_customer_features\<close>\<close>

text \<open>\<open>timedelta(days=1)\<close> in nanoseconds.\<close>

definition day :: int where
  "day = 86400000000000"

text \<open>
  One row of the feature table. The columns \<open>CustomerID\<close>, \<open>Name\<close> and \<open>Email\<close> carry the
  suffix \<open>_f\<close> here, since the transaction rows have fields of those names already.
\<close>

record feature =
  CustomerID_f :: int
  Name_f :: "string cell"
  Email_f :: "string cell"
  Last_Purchase :: "int option"
  Fav_Category :: "string cell"
  Total_Spent :: rat
  Last_Purchase_Days_Ago :: "int option"
  Recency :: "int option"
  Frequency :: nat
  Monetary :: rat

text \<open>One row of \<open>prod_agg\<close>: a (customer, description) pair with its summed quantity and
  summed line total.\<close>

record prod_row =
  CustomerID_p :: int
  Description_p :: string
  Qty :: rat
  Rev :: rat

text \<open>\<open>Series.max()\<close> of a datetime column: missing entries are skipped, and the maximum of
  nothing is NaT.\<close>

definition max_opt :: "int option list \<Rightarrow> int option" where
  "max_opt xs = (case List.map_filter id xs of [] \<Rightarrow> None | y # ys \<Rightarrow> Some (fold max ys y))"

text \<open>\<open>Series.sum()\<close> of a numeric column: NaN counts as zero.\<close>

definition sum_skipna :: "rat option list \<Rightarrow> rat" where
  "sum_skipna xs = sum_list (List.map_filter id xs)"

definition snapshot_date :: "priced list \<Rightarrow> int option" where
  "snapshot_date df = map_option (\<lambda>m. m + day) (max_opt (map InvoiceDate df))"

text \<open>\<open>df.groupby("CustomerID")\<close>: the keys in ascending order (rows without a customer id
  belong to no group), and the rows of one group in their original order.\<close>

definition customer_keys :: "priced list \<Rightarrow> int list" where
  "customer_keys df = sort (remdups (List.map_filter CustomerID df))"

definition group_rows :: "priced list \<Rightarrow> int \<Rightarrow> priced list" where
  "group_rows df c = filter (\<lambda>r. CustomerID r = Some c) df"

definition last_purchase :: "priced list \<Rightarrow> int \<Rightarrow> int option" where
  "last_purchase df c = max_opt (map InvoiceDate (group_rows df c))"

text \<open>\<open>(snapshot_date - last_purchase).dt.days\<close>: the whole days of the difference
  (\<open>div\<close> rounds down, as the \<open>days\<close> component of a timedelta does).\<close>

definition days_between :: "int option \<Rightarrow> int option \<Rightarrow> int option" where
  "days_between snapshot lp =
     (case (snapshot, lp) of (Some s, Some l) \<Rightarrow> Some ((s - l) div day) | _ \<Rightarrow> None)"

definition recency :: "priced list \<Rightarrow> int \<Rightarrow> int option" where
  "recency df c = days_between (snapshot_date df) (last_purchase df c)"

text \<open>\<open>df.groupby("CustomerID")["InvoiceNo"].nunique()\<close>.\<close>

definition frequency :: "priced list \<Rightarrow> int \<Rightarrow> nat" where
  "frequency df c = length (remdups (map InvoiceNo (group_rows df c)))"

definition monetary :: "priced list \<Rightarrow> int \<Rightarrow> rat" where
  "monetary df c = sum_skipna (map TotalPrice (group_rows df c))"

text \<open>
  \<open>df.groupby(["CustomerID","Description"]).agg(Qty=..., Rev=...).reset_index()\<close>: one row
  per pair that occurs, the pairs in ascending order (customer first, then description).
\<close>

definition pair_rows :: "priced list \<Rightarrow> int \<Rightarrow> string \<Rightarrow> priced list" where
  "pair_rows df c d = filter (\<lambda>r. Description r = d) (group_rows df c)"

definition summed_quantity :: "priced list \<Rightarrow> int \<Rightarrow> string \<Rightarrow> rat" where
  "summed_quantity df c d = sum_skipna (map Quantity (pair_rows df c d))"

definition summed_revenue :: "priced list \<Rightarrow> int \<Rightarrow> string \<Rightarrow> rat" where
  "summed_revenue df c d = sum_skipna (map TotalPrice (pair_rows df c d))"

definition prod_agg_group :: "priced list \<Rightarrow> int \<Rightarrow> prod_row list" where
  "prod_agg_group df c =
     map (\<lambda>d. \<lparr> CustomerID_p = c, Description_p = d,
                 Qty = summed_quantity df c d, Rev = summed_revenue df c d \<rparr>)
         (sort (remdups (map Description (group_rows df c))))"

definition prod_agg :: "priced list \<Rightarrow> prod_row list" where
  "prod_agg df = concat (map (prod_agg_group df) (customer_keys df))"

text \<open>
  \<open>sort_values(["CustomerID","Qty","Rev"], ascending=[True,False,False])\<close>: a stable sort
  on the three keys, the last two descending.
\<close>

definition sort_values_prod :: "prod_row list \<Rightarrow> prod_row list" where
  "sort_values_prod ps = sort_key (\<lambda>p. (CustomerID_p p, - Qty p, - Rev p)) ps"

text \<open>
  With \<open>inplace=True\<close>, \<open>sort_values\<close> sorts the frame it is called on and returns \<open>None\<close>.
  \<^verbatim>\<open>app/pipeline.py\<close> calls it at the end of the chain that builds \<open>prod_agg\<close> and binds the
  result, so \<open>prod_agg\<close> is \<open>None\<close> there; the script sorts in a statement of its own.
\<close>

definition sort_values_inplace :: "prod_row list \<Rightarrow> prod_row list option" where
  "sort_values_inplace ps = None"

text \<open>\<open>prod_agg.groupby("CustomerID").first()["Description"]\<close>: the description of the
  customer's first row.\<close>

definition fav_category :: "prod_row list \<Rightarrow> int \<Rightarrow> string cell" where
  "fav_category agg c =
     (case find (\<lambda>p. CustomerID_p p = c) agg of Some p \<Rightarrow> Val (Description_p p) | None \<Rightarrow> NaN)"

text \<open>
  \<open>df.sort_values("InvoiceDate").groupby("CustomerID").tail(1)\<close>: the rows by ascending
  date, missing dates last, and of each customer the last row. pandas does not promise
  an order among equal dates here; the model keeps their original order.
\<close>

definition sort_values_date :: "priced list \<Rightarrow> priced list" where
  "sort_values_date df =
     sort_key (\<lambda>r. case InvoiceDate r of Some t \<Rightarrow> (0::nat, t) | None \<Rightarrow> (1, 0)) df"

definition id_name :: "priced list \<Rightarrow> int \<Rightarrow> string cell \<times> string cell" where
  "id_name df c =
     (case rev (group_rows (sort_values_date df) c) of
        [] \<Rightarrow> (NaN, NaN)
      | r # _ \<Rightarrow> (Name r, Email r))"

text \<open>The merge of all series on the customer index, and the final sort by \<open>Monetary\<close>
  descending. pandas does not promise an order among equal \<open>Monetary\<close> values; the model
  keeps their index order, and no property below depends on it.\<close>

definition feature_row :: "priced list \<Rightarrow> prod_row list \<Rightarrow> int \<Rightarrow> feature" where
  "feature_row df agg c =
     \<lparr> CustomerID_f = c,
       Name_f = fst (id_name df c),
       Email_f = snd (id_name df c),
       Last_Purchase = last_purchase df c,
       Fav_Category = fav_category agg c,
       Total_Spent = monetary df c,
       Last_Purchase_Days_Ago = recency df c,
       Recency = recency df c,
       Frequency = frequency df c,
       Monetary = monetary df c \<rparr>"

definition merge_features :: "priced list \<Rightarrow> prod_row list \<Rightarrow> feature list" where
  "merge_features df agg =
     sort_key (\<lambda>f. - Monetary f) (map (feature_row df agg) (customer_keys df))"

text \<open>\<^verbatim>\<open>testing/segmentation_email_pipeline.py\<close>, \<open>derive_customer_features\<close>.\<close>

definition derive_customer_features_cli ::
  "priced list \<Rightarrow> error + (feature list \<times> int option)" where
  "derive_customer_features_cli df =
     (let agg = sort_values_prod (prod_agg df)
      in Inr (merge_features df agg, snapshot_date df))"

text \<open>\<^verbatim>\<open>app/pipeline.py\<close>, \<open>derive_customer_features\<close>: \<open>prod_agg.groupby\<close> on \<open>None\<close> raises
  \<open>AttributeError\<close>.\<close>

definition derive_customer_features_app ::
  "priced list \<Rightarrow> error + (feature list \<times> int option)" where
  "derive_customer_features_app df =
     (case sort_values_inplace (prod_agg df) of
        None \<Rightarrow> Inl AttributeError
      | Some agg \<Rightarrow> Inr (merge_features df agg, snapshot_date df))"

section \<open>Segment scorer: \<open>score_segments\<close>\<close>

record scored = feature +
  Cluster :: int
  Segment :: string

text \<open>
  The fitted scaler and the fitted clustering model are opaque artefacts: \<open>scaler\<close> stands
  for \<open>scaler.transform\<close> on the table of (Recency, Frequency, Monetary) triples, \<open>kmeans\<close>
  for \<open>kmeans.predict\<close> on what the scaler returns. Assigning the predicted array as a
  column raises \<open>ValueError\<close> unless it has one entry per row.
\<close>

definition rfm :: "feature \<Rightarrow> int option \<times> nat \<times> rat" where
  "rfm f = (Recency f, Frequency f, Monetary f)"

definition add_cluster :: "feature \<Rightarrow> int \<Rightarrow> scored" where
  "add_cluster f c = feature.extend f (scored.fields c (segment_name c))"

definition score_segments ::
  "feature list \<Rightarrow> ((int option \<times> nat \<times> rat) list \<Rightarrow> 'm) \<Rightarrow> ('m \<Rightarrow> int list)
     \<Rightarrow> error + scored list" where
  "score_segments features scaler kmeans =
     (let rfm_scaled = scaler (map rfm features);
          clusters = kmeans rfm_scaled
      in if length clusters \<noteq> length features then Inl ValueError
         else Inr (map2 add_cluster features clusters))"

section \<open>Dispatch: the send loops of the two entry points\<close>

text \<open>
  \<open>send_email_gmail\<close> is the outside world: given recipient, subject and body (the
  sender's credentials being fixed for a run) it either delivers (\<open>True\<close>) or raises
  (\<open>False\<close>), and the world moves on. The loops keep a counter \<open>sent\<close>; the model also
  records every attempt in order, with its outcome.
\<close>

type_synonym 'w sender = "string \<Rightarrow> string \<Rightarrow> string \<Rightarrow> 'w \<Rightarrow> bool \<times> 'w"

record 'w outbox =
  sent :: nat
  attempts :: "(string \<times> bool) list"
  world :: 'w

definition no_mail :: "'w \<Rightarrow> 'w outbox" where
  "no_mail w = \<lparr> sent = 0, attempts = [], world = w \<rparr>"

text \<open>\<open>if limit and sent >= limit\<close>: no limit and the limit 0 are both falsy.\<close>

definition limit_reached :: "int option \<Rightarrow> nat \<Rightarrow> bool" where
  "limit_reached limit n = (case limit of None \<Rightarrow> False | Some l \<Rightarrow> l \<noteq> 0 \<and> l \<le> int n)"

text \<open>
  What one iteration does before its \<open>try\<close> block: \<open>continue\<close>, raise (nothing catches
  it, the loop is left), or reach the \<open>try\<close> block with a message to send.
\<close>

datatype prepared = Skip | Abort error | Message string string string

text \<open>
  The loop, parametrised by that first half of the body. A delivery counts and is
  followed by the test of the limit; a failed delivery is caught and the loop goes on.
\<close>

fun send_loop ::
  "('r \<Rightarrow> prepared) \<Rightarrow> 'w sender \<Rightarrow> int option \<Rightarrow> 'r list \<Rightarrow> 'w outbox
     \<Rightarrow> error option \<times> 'w outbox" where
  "send_loop prep send limit [] st = (None, st)"
| "send_loop prep send limit (r # rs) st =
     (case prep r of
        Skip \<Rightarrow> send_loop prep send limit rs st
      | Abort e \<Rightarrow> (Some e, st)
      | Message email subject body \<Rightarrow>
          (case send email subject body (world st) of
             (True, w) \<Rightarrow>
               let st' = \<lparr> sent = sent st + 1, attempts = attempts st @ [(email, True)],
                           world = w \<rparr>
               in if limit_reached limit (sent st') then (None, st')
                  else send_loop prep send limit rs st'
           | (False, w) \<Rightarrow>
               send_loop prep send limit rs
                 \<lparr> sent = sent st, attempts = attempts st @ [(email, False)], world = w \<rparr>))"

text \<open>
  \<^verbatim>\<open>app/main.py\<close>: the rows are the dictionaries built from the scored table, where
  \<open>int(...)\<close> and \<open>strftime\<close> have been applied (they raise \<open>ValueError\<close> on a missing
  value). Of a dictionary only the keys the send loop reads are kept, with the suffix
  \<open>_d\<close>.
\<close>

record row_dict =
  Name_d :: "string cell"
  Email_d :: "string cell"
  Fav_Category_d :: "string cell"
  Last_Purchase_Days_Ago_d :: int
  Segment_d :: string

definition to_row_dict :: "scored \<Rightarrow> error + row_dict" where
  "to_row_dict r =
     (case (Last_Purchase r, Last_Purchase_Days_Ago r, Recency r) of
        (Some _, Some d, Some _) \<Rightarrow>
          Inr \<lparr> Name_d = Name_f r, Email_d = Email_f r, Fav_Category_d = Fav_Category r,
                Last_Purchase_Days_Ago_d = d, Segment_d = Segment r \<rparr>
      | _ \<Rightarrow> Inl ValueError)"

fun to_row_dicts :: "scored list \<Rightarrow> error + row_dict list" where
  "to_row_dicts [] = Inr []"
| "to_row_dicts (r # rs) =
     (case to_row_dict r of
        Inl e \<Rightarrow> Inl e
      | Inr d \<Rightarrow> (case to_row_dicts rs of Inl e \<Rightarrow> Inl e | Inr ds \<Rightarrow> Inr (d # ds)))"

text \<open>
  \<open>if not email or "@" not in email: continue\<close>, then \<open>generate_email\<close> outside the \<open>try\<close>.
  \<open>None\<close> is falsy; NaN is truthy and \<open>"@" not in nan\<close> raises \<open>TypeError\<close>.
\<close>

definition prep_app :: "row_dict \<Rightarrow> prepared" where
  "prep_app r =
     (case Email_d r of
        PyNone \<Rightarrow> Skip
      | NaN \<Rightarrow> Abort TypeError
      | Val email \<Rightarrow>
          if email = [] \<or> \<not> contains_at email then Skip
          else (case generate_email_app (Name_d r) (Segment_d r)
                       (Val (Last_Purchase_Days_Ago_d r)) (Fav_Category_d r) of
                  Inl e \<Rightarrow> Abort e
                | Inr (subject, body) \<Rightarrow> Message email subject body))"

text \<open>\<^verbatim>\<open>testing/segmentation_email_pipeline.py\<close>: \<open>email = str(row["Email"]).strip()\<close>.\<close>

definition prep_cli :: "scored \<Rightarrow> prepared" where
  "prep_cli r =
     (let email = strip (astype_str (Email_f r))
      in if email = [] \<or> \<not> contains_at email then Skip
         else (case generate_email_cli (Name_f r) (Segment r)
                      (case Last_Purchase_Days_Ago r of Some d \<Rightarrow> Val d | None \<Rightarrow> NaN)
                      (Fav_Category r) of
                 Inl e \<Rightarrow> Abort e
               | Inr (subject, body) \<Rightarrow> Message email subject body))"

section \<open>The two entry points\<close>

text \<open>
  \<^verbatim>\<open>app/main.py\<close>, \<open>segment_customers\<close>, from the parsed upload on: clean, derive, score,
  build the response rows, and send if asked to. The result is the response (here its
  rows) or the error that ends the request, together with the mail that went out.
\<close>

definition segment_customers ::
  "parsers \<Rightarrow> ((int option \<times> nat \<times> rat) list \<Rightarrow> 'm) \<Rightarrow> ('m \<Rightarrow> int list) \<Rightarrow> 'w sender
     \<Rightarrow> bool \<Rightarrow> bool \<Rightarrow> int option \<Rightarrow> dataframe \<Rightarrow> 'w
     \<Rightarrow> (error + row_dict list) \<times> 'w outbox" where
  "segment_customers P scaler kmeans send credentials send_emails limit df w =
     (case clean_transactions P df of
        Inl e \<Rightarrow> (Inl e, no_mail w)
      | Inr tx \<Rightarrow>
     (case derive_customer_features_app tx of
        Inl e \<Rightarrow> (Inl e, no_mail w)
      | Inr (features, snapshot) \<Rightarrow>
     (case score_segments features scaler kmeans of
        Inl e \<Rightarrow> (Inl e, no_mail w)
      | Inr scored_rows \<Rightarrow>
     (case to_row_dicts scored_rows of
        Inl e \<Rightarrow> (Inl e, no_mail w)
      | Inr out_rows \<Rightarrow>
          if send_emails then
            if \<not> credentials then (Inl ConfigError, no_mail w)
            else (case send_loop prep_app send limit out_rows (no_mail w) of
                    (Some e, st) \<Rightarrow> (Inl e, st)
                  | (None, st) \<Rightarrow> (Inr out_rows, st))
          else (Inr out_rows, no_mail w)))))"

text \<open>
  \<^verbatim>\<open>testing/segmentation_email_pipeline.py\<close>, \<open>main\<close>, from the parsed input file on: the
  credentials check, clean, the test for an empty cleaned table, derive, score, and send
  unless \<open>--dry-run\<close>.
\<close>

definition main_cli ::
  "parsers \<Rightarrow> ((int option \<times> nat \<times> rat) list \<Rightarrow> 'm) \<Rightarrow> ('m \<Rightarrow> int list) \<Rightarrow> 'w sender
     \<Rightarrow> bool \<Rightarrow> bool \<Rightarrow> int option \<Rightarrow> dataframe \<Rightarrow> 'w
     \<Rightarrow> (error + scored list) \<times> 'w outbox" where
  "main_cli P scaler kmeans send credentials dry_run limit df w =
     (if \<not> dry_run \<and> \<not> credentials then (Inl ConfigError, no_mail w)
      else
     (case clean_transactions P df of
        Inl e \<Rightarrow> (Inl e, no_mail w)
      | Inr tx \<Rightarrow>
          if tx = [] then (Inl EmptyInputError, no_mail w)
          else
     (case derive_customer_features_cli tx of
        Inl e \<Rightarrow> (Inl e, no_mail w)
      | Inr (features, snapshot) \<Rightarrow>
     (case score_segments features scaler kmeans of
        Inl e \<Rightarrow> (Inl e, no_mail w)
      | Inr scored_rows \<Rightarrow>
          if \<not> dry_run then
            (case send_loop prep_cli send limit scored_rows (no_mail w) of
               (Some e, st) \<Rightarrow> (Inl e, st)
             | (None, st) \<Rightarrow> (Inr scored_rows, st))
          else (Inr scored_rows, no_mail w)))))"

section \<open>Vocabulary of the properties and sample data\<close>

text \<open>The addresses the loop reaches its \<open>try\<close> block with, in row order.\<close>

definition recipients :: "('r \<Rightarrow> prepared) \<Rightarrow> 'r list \<Rightarrow> string list" where
  "recipients prep rs =
     List.map_filter (\<lambda>r. case prep r of Message email _ _ \<Rightarrow> Some email | _ \<Rightarrow> None) rs"



text \<open>
  A small upload: customer 7 has a cancelled invoice on day 1 and a valid one on day 2
  (three mugs at 10.0), customer 9 a valid invoice on day 4 and no name.
\<close>

definition sample_df :: dataframe where
  "sample_df =
     \<lparr> columns = REQUIRED_COLUMNS,
       rows = [raw_row ''C1001'' ''Mug'' ''1'' ''86400000000000'' ''10'' ''7''
                 (Val ''Ann'') (Val ''ann@example.com''),
               raw_row ''1002'' ''Mug'' ''3'' ''172800000000000'' ''10'' ''7''
                 (Val ''Ann'') (Val ''ann@example.com''),
               raw_row ''1003'' ''Pen'' ''2'' ''345600000000000'' ''4'' ''9''
                 NaN (Val ''bob@example.com'')] \<rparr>"

definition sample_tx :: "priced list" where
  "sample_tx =
     [\<lparr> InvoiceNo = ''1002'', StockCode = ''S1'', Description = ''Mug'', Quantity = Some 3,
        UnitPrice = Some 10, CustomerID = Some 7, InvoiceDate = Some 172800000000000,
        Name = Val ''Ann'', Email = Val ''ann@example.com'', Country = Val ''UK'',
        TotalPrice = Some 30 \<rparr>,
      \<lparr> InvoiceNo = ''1003'', StockCode = ''S1'', Description = ''Pen'', Quantity = Some 2,
        UnitPrice = Some 4, CustomerID = Some 9, InvoiceDate = Some 345600000000000,
        Name = NaN, Email = Val ''bob@example.com'', Country = Val ''UK'',
        TotalPrice = Some 8 \<rparr>]"

definition sample_features :: "feature list" where
  "sample_features =
     [\<lparr> CustomerID_f = 7, Name_f = Val ''Ann'', Email_f = Val ''ann@example.com'',
        Last_Purchase = Some 172800000000000, Fav_Category = Val ''Mug'', Total_Spent = 30,
        Last_Purchase_Days_Ago = Some 3, Recency = Some 3, Frequency = 1, Monetary = 30 \<rparr>,
      \<lparr> CustomerID_f = 9, Name_f = NaN, Email_f = Val ''bob@example.com'',
        Last_Purchase = Some 345600000000000, Fav_Category = Val ''Pen'', Total_Spent = 8,
        Last_Purchase_Days_Ago = Some 1, Recency = Some 1, Frequency = 1, Monetary = 8 \<rparr>]"

text \<open>Two cluster ids for the two sample customers, one of them outside the table.\<close>

definition sample_scored :: "scored list" where
  "sample_scored = map2 add_cluster sample_features [2, 7]"

text \<open>The same upload without its \<open>Email\<close> column; an upload whose only row has an
  empty address; an upload with nothing but the cancelled invoice.\<close>

definition sample_df_no_email :: dataframe where
  "sample_df_no_email = sample_df \<lparr> columns := removeAll ''Email'' REQUIRED_COLUMNS \<rparr>"

definition sample_df_empty_email :: dataframe where
  "sample_df_empty_email =
     \<lparr> columns = REQUIRED_COLUMNS,
       rows = [raw_row ''1002'' ''Mug'' ''3'' ''172800000000000'' ''10'' ''7''
                 (Val ''Ann'') (Val [])] \<rparr>"

definition sample_tx_empty_email :: "priced list" where
  "sample_tx_empty_email =
     [\<lparr> InvoiceNo = ''1002'', StockCode = ''S1'', Description = ''Mug'', Quantity = Some 3,
        UnitPrice = Some 10, CustomerID = Some 7, InvoiceDate = Some 172800000000000,
        Name = Val ''Ann'', Email = Val [], Country = Val ''UK'', TotalPrice = Some 30 \<rparr>]"

definition sample_df_cancelled :: dataframe where
  "sample_df_cancelled =
     \<lparr> columns = REQUIRED_COLUMNS,
       rows = [raw_row ''C1001'' ''Mug'' ''1'' ''86400000000000'' ''10'' ''7''
                 (Val ''Ann'') (Val ''ann@example.com'')] \<rparr>"


text \<open>Two rows, the second with a missing (NaN) name, on which the service's
  \<open>generate_email\<close> raises.\<close>

definition sample_rows_nan_name :: "row_dict list" where
  "sample_rows_nan_name =
     [\<lparr> Name_d = Val ''Ann'', Email_d = Val ''ann@example.com'', Fav_Category_d = Val ''Mug'',
        Last_Purchase_Days_Ago_d = 3, Segment_d = ''VIP Customers'' \<rparr>,
      \<lparr> Name_d = NaN, Email_d = Val ''bob@example.com'', Fav_Category_d = Val ''Pen'',
        Last_Purchase_Days_Ago_d = 1, Segment_d = ''VIP Customers'' \<rparr>]"

definition always_delivers :: "unit sender" where
  "always_delivers email subject body w = (True, w)"

section \<open>Properties\<close>

lemma int_of_str_many: "int_of_str ''many'' = Inl ValueError"
  by (simp add: int_of_str_def strip_def is_space_def int_of_digits_def is_digit_def)

subsection \<open>Helper facts\<close>

lemma int_of_str_samples:
  "int_of_str ''1'' = Inr 1" "int_of_str ''2'' = Inr 2" "int_of_str ''3'' = Inr 3"
  "int_of_str ''4'' = Inr 4" "int_of_str ''7'' = Inr 7" "int_of_str ''9'' = Inr 9"
  "int_of_str ''10'' = Inr 10"
  "int_of_str ''86400000000000'' = Inr 86400000000000"
  "int_of_str ''172800000000000'' = Inr 172800000000000"
  "int_of_str ''345600000000000'' = Inr 345600000000000"
  by (simp_all add: int_of_str_def strip_def is_space_def int_of_digits_def is_digit_def
        digit_val_def)

lemmas clean_eval =
  clean_transactions_def REQUIRED_COLUMNS_def raw_row_def row_of_def decimal_parsers_def
  to_numeric_def to_datetime_def convert_dtypes_def astype_str_def astype_Int64_def
  fractional_def is_integral_def int_of_str_samples startswith_def positive_def notna_def
  isna_def with_total_def line_total_def tx.defs priced.defs

lemmas derive_eval =
  merge_features_def feature_row_def customer_keys_def prod_agg_def prod_agg_group_def
  summed_quantity_def summed_revenue_def sort_values_prod_def
  group_rows_def pair_rows_def sum_skipna_def snapshot_date_def max_opt_def day_def
  id_name_def sort_values_date_def fav_category_def monetary_def frequency_def recency_def
  last_purchase_def days_between_def

lemma clean_sample: "clean_transactions decimal_parsers sample_df = Inr sample_tx"
  by (simp add: sample_df_def sample_tx_def clean_eval)

lemma clean_sample_empty_email:
  "clean_transactions decimal_parsers sample_df_empty_email = Inr sample_tx_empty_email"
  by (simp add: sample_df_empty_email_def sample_tx_empty_email_def clean_eval)

lemma clean_sample_cancelled: "clean_transactions decimal_parsers sample_df_cancelled = Inr []"
  by (simp add: sample_df_cancelled_def clean_eval)

lemma derive_sample:
  "derive_customer_features_cli sample_tx = Inr (sample_features, Some 432000000000000)"
  by (simp add: derive_customer_features_cli_def sample_tx_def sample_features_def derive_eval)

lemma with_total_fields [simp]:
  "InvoiceNo (with_total r) = InvoiceNo r" "Quantity (with_total r) = Quantity r"
  "UnitPrice (with_total r) = UnitPrice r" "CustomerID (with_total r) = CustomerID r"
  "InvoiceDate (with_total r) = InvoiceDate r" "Email (with_total r) = Email r"
  "Name (with_total r) = Name r" "Description (with_total r) = Description r"
  "TotalPrice (with_total r) = line_total (Quantity r) (UnitPrice r)"
  by (simp_all add: with_total_def tx.defs priced.defs)

text \<open>Every row that leaves the cleaner is a converted input row that passed the three
  filters.\<close>

lemma clean_transactions_rows:
  assumes "clean_transactions P df = Inr out" and "r \<in> set out"
  shows "\<exists>t \<in> set (rows df). r = with_total (convert_dtypes P t)
          \<and> \<not> startswith (InvoiceNo (convert_dtypes P t)) ''C''
          \<and> positive (Quantity (convert_dtypes P t)) \<and> positive (UnitPrice (convert_dtypes P t))
          \<and> CustomerID (convert_dtypes P t) \<noteq> None \<and> InvoiceDate (convert_dtypes P t) \<noteq> None
          \<and> notna (Email (convert_dtypes P t))"
  using assms by (fastforce simp: clean_transactions_def Let_def split: if_splits)

lemma set_map_filter: "set (List.map_filter g xs) = {y. \<exists>x\<in>set xs. g x = Some y}"
  by (induction xs) (auto split: option.splits)

lemma max_opt_Max:
  "max_opt xs = (if {t. Some t \<in> set xs} = {} then None else Some (Max {t. Some t \<in> set xs}))"
proof (cases "List.map_filter id xs")
  case Nil
  then have "{t. Some t \<in> set xs} = {}"
    using set_map_filter [of id xs] by simp
  with Nil show ?thesis by (simp add: max_opt_def)
next
  case (Cons y ys)
  then have s: "{t. Some t \<in> set xs} = set (y # ys)"
    using set_map_filter [of id xs] by simp
  have "Max (set (y # ys)) = fold max ys y" by (rule Max.set_eq_fold)
  with Cons s show ?thesis by (simp add: max_opt_def)
qed

lemma max_opt_dates:
  "max_opt (map InvoiceDate xs) =
     (if {t. \<exists>r\<in>set xs. InvoiceDate r = Some t} = {} then None
      else Some (Max {t. \<exists>r\<in>set xs. InvoiceDate r = Some t}))"
proof -
  have "{t. Some t \<in> set (map InvoiceDate xs)} = {t. \<exists>r\<in>set xs. InvoiceDate r = Some t}"
    by force
  then show ?thesis by (simp only: max_opt_Max)
qed

lemma set_customer_keys: "set (customer_keys df) = {c. \<exists>r\<in>set df. CustomerID r = Some c}"
  by (simp add: customer_keys_def set_map_filter)

lemma distinct_customer_keys: "distinct (customer_keys df)"
  by (simp add: customer_keys_def)

lemma set_group_rows: "set (group_rows df c) = {r \<in> set df. CustomerID r = Some c}"
  by (auto simp: group_rows_def)

lemma set_merge_features:
  "set (merge_features df agg) = feature_row df agg ` set (customer_keys df)"
  by (simp add: merge_features_def)

text \<open>Whichever copy returns, it returns the merged table of some \<open>prod_agg\<close> and the
  snapshot date.\<close>

lemma derive_rows:
  assumes "derive_customer_features_cli df = Inr (fs, snap)
           \<or> derive_customer_features_app df = Inr (fs, snap)"
  shows "snap = snapshot_date df \<and> (\<exists>agg. fs = merge_features df agg)"
  using assms
  by (auto simp: derive_customer_features_cli_def derive_customer_features_app_def
        sort_values_inplace_def)

lemma distinct_merge_features: "distinct (map CustomerID_f (merge_features df agg))"
proof -
  have "map CustomerID_f (map (feature_row df agg) (customer_keys df)) = customer_keys df"
    by (simp add: feature_row_def o_def)
  then have "distinct (map CustomerID_f (map (feature_row df agg) (customer_keys df)))"
    by (simp only: distinct_customer_keys)
  then have "distinct (map (feature_row df agg) (customer_keys df))
           \<and> inj_on CustomerID_f (set (map (feature_row df agg) (customer_keys df)))"
    by (simp only: distinct_map)
  then show ?thesis
    by (simp only: merge_features_def distinct_map distinct_sort set_sort)
qed

lemma frequency_card:
  "frequency df c = card (InvoiceNo ` {r \<in> set df. CustomerID r = Some c})"
  by (simp add: frequency_def length_remdups_card_conv set_group_rows)

lemma segment_name_cases:
  "segment_name c = (if c = 0 then ''At-Risk Customers'' else if c = 1 then ''Regular Customers''
                     else if c = 2 then ''VIP Customers'' else ''Unknown'')"
  by (simp add: segment_name_def CLUSTER_MAP_def)

lemma add_cluster_fields [simp]:
  "Cluster (add_cluster f c) = c" "Segment (add_cluster f c) = segment_name c"
  "feature.truncate (add_cluster f c) = f"
  by (simp_all add: add_cluster_def feature.defs scored.defs)

lemma score_sample:
  "score_segments sample_features (\<lambda>x. x) (\<lambda>x. [2, 7]) = Inr sample_scored"
  by (simp add: score_segments_def sample_scored_def sample_features_def)

lemma recipients_simps [simp]:
  "recipients prep [] = []"
  "prep r = Skip \<Longrightarrow> recipients prep (r # rs) = recipients prep rs"
  "prep r = Abort e \<Longrightarrow> recipients prep (r # rs) = recipients prep rs"
  "prep r = Message a s b \<Longrightarrow> recipients prep (r # rs) = a # recipients prep rs"
  by (simp_all add: recipients_def)

subsection \<open>The cleaner\<close>

text \<open>
  Claim C1, as amended. Every row of the output of \<open>clean_transactions\<close> has a quantity
  above zero, a unit price above zero, an invoice id that does not start with \<open>C\<close>, and
  a customer id, an invoice date and an email that are not missing. (An email that is
  present but empty is kept: see the counterexample that follows.)
\<close>

theorem clean_transactions_rows_valid:
  assumes "clean_transactions P df = Inr out" and "r \<in> set out"
  shows "(\<exists>q. Quantity r = Some q \<and> 0 < q) \<and> (\<exists>p. UnitPrice r = Some p \<and> 0 < p)
       \<and> \<not> startswith (InvoiceNo r) ''C''
       \<and> CustomerID r \<noteq> None \<and> InvoiceDate r \<noteq> None
       \<and> Email r \<noteq> PyNone \<and> Email r \<noteq> NaN"
proof -
  from clean_transactions_rows [OF assms] obtain t where
      "r = with_total (convert_dtypes P t)"
      "\<not> startswith (InvoiceNo (convert_dtypes P t)) ''C''"
      "positive (Quantity (convert_dtypes P t))" "positive (UnitPrice (convert_dtypes P t))"
      "CustomerID (convert_dtypes P t) \<noteq> None" "InvoiceDate (convert_dtypes P t) \<noteq> None"
      "notna (Email (convert_dtypes P t))"
    by blast
  then show ?thesis
    by (auto simp: positive_def notna_def isna_def split: option.splits cell.splits)
qed

theorem clean_transactions_rows_valid_witness:
  "clean_transactions decimal_parsers sample_df = Inr sample_tx
   \<and> hd sample_tx \<in> set sample_tx
   \<and> Quantity (hd sample_tx) = Some 3 \<and> UnitPrice (hd sample_tx) = Some 10
   \<and> InvoiceNo (hd sample_tx) = ''1002''
   \<and> \<not> startswith (InvoiceNo (hd sample_tx)) ''C''
   \<and> CustomerID (hd sample_tx) \<noteq> None \<and> InvoiceDate (hd sample_tx) \<noteq> None
   \<and> Email (hd sample_tx) \<noteq> PyNone \<and> Email (hd sample_tx) \<noteq> NaN"
proof -
  have mem: "hd sample_tx \<in> set sample_tx" by (simp add: sample_tx_def)
  from clean_transactions_rows_valid [OF clean_sample mem] clean_sample mem
  show ?thesis by (simp add: sample_tx_def)
qed

text \<open>
  Claim C1 as stated also asks for a non-empty email. It fails on an upload whose row
  carries the empty string as its email: \<open>dropna\<close> removes missing entries only.
\<close>

theorem clean_transactions_keeps_empty_email:
  "\<not> (\<forall>P df out r.
        set REQUIRED_COLUMNS \<subseteq> set (columns df) \<longrightarrow>
        clean_transactions P df = Inr out \<longrightarrow> r \<in> set out \<longrightarrow>
          (\<exists>q. Quantity r = Some q \<and> 0 < q) \<and> (\<exists>p. UnitPrice r = Some p \<and> 0 < p)
        \<and> \<not> startswith (InvoiceNo r) ''C''
        \<and> CustomerID r \<noteq> None \<and> InvoiceDate r \<noteq> None
        \<and> Email r \<noteq> PyNone \<and> Email r \<noteq> NaN \<and> Email r \<noteq> Val [])"
proof
  assume claim: "\<forall>P df out r.
        set REQUIRED_COLUMNS \<subseteq> set (columns df) \<longrightarrow>
        clean_transactions P df = Inr out \<longrightarrow> r \<in> set out \<longrightarrow>
          (\<exists>q. Quantity r = Some q \<and> 0 < q) \<and> (\<exists>p. UnitPrice r = Some p \<and> 0 < p)
        \<and> \<not> startswith (InvoiceNo r) ''C''
        \<and> CustomerID r \<noteq> None \<and> InvoiceDate r \<noteq> None
        \<and> Email r \<noteq> PyNone \<and> Email r \<noteq> NaN \<and> Email r \<noteq> Val []"
  have cols: "set REQUIRED_COLUMNS \<subseteq> set (columns sample_df_empty_email)"
    by (simp add: sample_df_empty_email_def)
  have mem: "hd sample_tx_empty_email \<in> set sample_tx_empty_email"
    by (simp add: sample_tx_empty_email_def)
  from claim cols clean_sample_empty_email mem
  have "Email (hd sample_tx_empty_email) \<noteq> Val []" by blast
  then show False by (simp add: sample_tx_empty_email_def)
qed

text \<open>
  Claim C9. \<open>clean_transactions\<close> ends in the schema error exactly when one of the ten
  required columns is absent from the table. The error then lists the absent columns and
  is the same whatever the rows hold and whatever the parsers make of them: it is raised
  before any row is looked at, and no cleaned rows come with it.
\<close>

theorem clean_transactions_schema_error:
  "((\<exists>m. clean_transactions P df = Inl (SchemaError m))
      \<longleftrightarrow> (\<exists>c\<in>set REQUIRED_COLUMNS. c \<notin> set (columns df)))
   \<and> (\<forall>m. clean_transactions P df = Inl (SchemaError m) \<longrightarrow>
          m = filter (\<lambda>c. c \<notin> set (columns df)) REQUIRED_COLUMNS
        \<and> clean_transactions P' (df \<lparr> rows := rs \<rparr>) = Inl (SchemaError m))
   \<and> length REQUIRED_COLUMNS = 10 \<and> distinct REQUIRED_COLUMNS"
proof (intro conjI)
  show "(\<exists>m. clean_transactions P df = Inl (SchemaError m))
      \<longleftrightarrow> (\<exists>c\<in>set REQUIRED_COLUMNS. c \<notin> set (columns df))"
    by (auto simp: clean_transactions_def Let_def filter_empty_conv split: if_splits)
  show "\<forall>m. clean_transactions P df = Inl (SchemaError m) \<longrightarrow>
          m = filter (\<lambda>c. c \<notin> set (columns df)) REQUIRED_COLUMNS
        \<and> clean_transactions P' (df \<lparr> rows := rs \<rparr>) = Inl (SchemaError m)"
    by (auto simp: clean_transactions_def Let_def split: if_splits)
  show "length REQUIRED_COLUMNS = 10" by (simp add: REQUIRED_COLUMNS_def)
  show "distinct REQUIRED_COLUMNS" by (simp add: REQUIRED_COLUMNS_def)
qed

theorem clean_transactions_schema_error_witness:
  "clean_transactions decimal_parsers sample_df_no_email = Inl (SchemaError [''Email''])
   \<and> (\<exists>c\<in>set REQUIRED_COLUMNS. c \<notin> set (columns sample_df_no_email))
   \<and> clean_transactions decimal_parsers (sample_df_no_email \<lparr> rows := [] \<rparr>) = Inl (SchemaError [''Email''])
   \<and> (\<exists>out. clean_transactions decimal_parsers sample_df = Inr out)
   \<and> \<not> (\<exists>c\<in>set REQUIRED_COLUMNS. c \<notin> set (columns sample_df))"
proof -
  have e: "clean_transactions decimal_parsers sample_df_no_email = Inl (SchemaError [''Email''])"
    by (simp add: sample_df_no_email_def sample_df_def clean_eval)
  from clean_transactions_schema_error [of decimal_parsers sample_df_no_email decimal_parsers "[]"] e
  have "(\<exists>c\<in>set REQUIRED_COLUMNS. c \<notin> set (columns sample_df_no_email))
      \<and> clean_transactions decimal_parsers (sample_df_no_email \<lparr> rows := [] \<rparr>) = Inl (SchemaError [''Email''])"
    by blast
  moreover from clean_transactions_schema_error [of decimal_parsers sample_df] clean_sample
  have "\<not> (\<exists>c\<in>set REQUIRED_COLUMNS. c \<notin> set (columns sample_df))" by simp
  ultimately show ?thesis using e clean_sample by blast
qed

subsection \<open>The message composer\<close>

text \<open>
  Claim C3 is not met by \<open>generate_email\<close>. In the service's copy a missing days value
  reaches \<open>int("many")\<close> in the at-risk branch and raises \<open>ValueError\<close>, a missing (NaN)
  name raises \<open>AttributeError\<close>, and a missing (\<open>None\<close>) favourite category is rendered
  as \<open>"Your favourites"\<close>; the script's copy raises on a missing days value as well.
\<close>

theorem generate_email_raises:
  "generate_email_app (Val ''Ann'') ''At-Risk Customers'' PyNone (Val ''Mugs'') = Inl ValueError
   \<and> generate_email_app (Val ''Ann'') ''Unknown'' NaN (Val ''Mugs'') = Inl ValueError
   \<and> generate_email_app NaN ''VIP Customers'' (Val 3) (Val ''Mugs'') = Inl AttributeError
   \<and> generate_email_app (Val ''Ann'') ''VIP Customers'' (Val 3) PyNone
       = Inr (vip_email ''Ann'' ''Your favourites'')
   \<and> generate_email_cli (Val ''Ann'') ''At-Risk Customers'' NaN (Val ''Mugs'') = Inl ValueError
   \<and> generate_email_cli (Val ''Ann'') ''At-Risk Customers'' PyNone (Val ''Mugs'') = Inl TypeError"
  by (simp add: generate_email_app_def generate_email_cli_def or_strip_def or_else_def
        strip_def is_space_def int_of_str_many py_int_def)

text \<open>
  What does hold: with the days value present, the script's copy always returns, and
  renders a missing or blank name as \<open>there\<close> and a missing or blank favourite category
  as \<open>your favorites\<close>.
\<close>

lemma strip_defaults:
  "strip ''there'' = ''there''" "strip ''your favorites'' = ''your favorites''"
  "strip ''Your favourites'' = ''Your favourites''"
  by (simp_all add: strip_def is_space_def)

lemma generate_email_cli_total:
  "\<exists>subject body. generate_email_cli name segment (Val d) fav = Inr (subject, body)"
  by (simp add: generate_email_cli_def py_int_def Let_def)

lemma generate_email_cli_fallbacks:
  assumes "name = PyNone \<or> name = NaN \<or> (\<exists>s. name = Val s \<and> strip s = [])"
    and "fav = PyNone \<or> fav = NaN \<or> (\<exists>s. fav = Val s \<and> strip s = [])"
  shows "generate_email_cli name segment days fav =
           generate_email_cli (Val ''there'') segment days (Val ''your favorites'')"
proof -
  have n: "(case name of Val s \<Rightarrow> if strip s = [] then ''there'' else s | _ \<Rightarrow> ''there'') = ''there''"
    using assms(1) by (auto split: cell.splits)
  have f: "(case fav of Val s \<Rightarrow> if strip s \<noteq> [] then s else ''your favorites''
                      | _ \<Rightarrow> ''your favorites'') = ''your favorites''"
    using assms(2) by (auto split: cell.splits)
  show ?thesis
    unfolding generate_email_cli_def n f by (simp add: strip_defaults)
qed

subsection \<open>The scorer\<close>

text \<open>
  Claim C6. In every row that \<open>score_segments\<close> returns, the segment name is the static
  lookup of the row's cluster id: 0 gives \<open>At-Risk Customers\<close>, 1 gives
  \<open>Regular Customers\<close>, 2 gives \<open>VIP Customers\<close>, every other integer gives \<open>Unknown\<close>.
\<close>

theorem score_segments_segment_lookup:
  assumes "score_segments features scaler kmeans = Inr out" and "r \<in> set out"
  shows "Segment r = (if Cluster r = 0 then ''At-Risk Customers''
                      else if Cluster r = 1 then ''Regular Customers''
                      else if Cluster r = 2 then ''VIP Customers'' else ''Unknown'')"
proof -
  from assms obtain f c where "r = add_cluster f c"
    by (auto simp: score_segments_def Let_def set_zip split: if_splits)
  then show ?thesis by (simp add: segment_name_cases)
qed

theorem score_segments_segment_lookup_witness:
  "score_segments sample_features (\<lambda>x. x) (\<lambda>x. [2, 7]) = Inr sample_scored
   \<and> last sample_scored \<in> set sample_scored
   \<and> Cluster (last sample_scored) = 7 \<and> Segment (last sample_scored) = ''Unknown''
   \<and> Cluster (hd sample_scored) = 2 \<and> Segment (hd sample_scored) = ''VIP Customers''"
proof -
  have l: "last sample_scored \<in> set sample_scored" and h: "hd sample_scored \<in> set sample_scored"
    by (simp_all add: sample_scored_def sample_features_def)
  have cl: "Cluster (last sample_scored) = 7" and ch: "Cluster (hd sample_scored) = 2"
    by (simp_all add: sample_scored_def sample_features_def)
  from score_segments_segment_lookup [OF score_sample l]
       score_segments_segment_lookup [OF score_sample h] cl ch score_sample l
  show ?thesis by simp
qed

text \<open>
  Claim C7. Whenever the model predicts one cluster id per row, \<open>score_segments\<close> returns
  one row per feature row, in the same order: row \<open>i\<close> is feature row \<open>i\<close> unchanged,
  extended with the \<open>i\<close>-th prediction for the table of (Recency, Frequency, Monetary)
  triples, whose \<open>i\<close>-th entry is the triple of feature row \<open>i\<close>, and with that
  cluster's segment name.
\<close>

theorem score_segments_preserves_rows:
  assumes "length (kmeans (scaler (map rfm features))) = length features"
  shows "\<exists>out. score_segments features scaler kmeans = Inr out
           \<and> length out = length features
           \<and> (\<forall>i<length features.
                 feature.truncate (out ! i) = features ! i
               \<and> map rfm features ! i
                   = (Recency (features ! i), Frequency (features ! i), Monetary (features ! i))
               \<and> Cluster (out ! i) = kmeans (scaler (map rfm features)) ! i
               \<and> Segment (out ! i) = segment_name (Cluster (out ! i)))"
  using assms by (simp add: score_segments_def Let_def rfm_def)

theorem score_segments_preserves_rows_witness:
  "length ((\<lambda>x. [2, 7]) ((\<lambda>x. x) (map rfm sample_features))) = length sample_features
   \<and> (\<exists>out. score_segments sample_features (\<lambda>x. x) (\<lambda>x. [2, 7]) = Inr out
         \<and> length out = 2
         \<and> feature.truncate (out ! 0) = sample_features ! 0
         \<and> feature.truncate (out ! 1) = sample_features ! 1
         \<and> Cluster (out ! 0) = 2 \<and> Cluster (out ! 1) = 7)"
proof -
  have len: "length ((\<lambda>x. [2, 7]) ((\<lambda>x. x) (map rfm sample_features))) = length sample_features"
    by (simp add: sample_features_def)
  from score_segments_preserves_rows [of "\<lambda>x. [2, 7]" "\<lambda>x. x" sample_features, OF len]
  obtain out where out: "score_segments sample_features (\<lambda>x. x) (\<lambda>x. [2, 7]) = Inr out"
      "length out = length sample_features"
      "\<forall>i<length sample_features.
          feature.truncate (out ! i) = sample_features ! i
        \<and> map rfm sample_features ! i
            = (Recency (sample_features ! i), Frequency (sample_features ! i),
               Monetary (sample_features ! i))
        \<and> Cluster (out ! i) = [2, 7] ! i
        \<and> Segment (out ! i) = segment_name (Cluster (out ! i))"
    by blast
  have two: "length sample_features = 2" by (simp add: sample_features_def)
  from out(3) two have "feature.truncate (out ! 0) = sample_features ! 0"
      "feature.truncate (out ! 1) = sample_features ! 1"
      "Cluster (out ! 0) = 2" "Cluster (out ! 1) = 7"
    by simp_all
  with out(1,2) two len show ?thesis by auto
qed

subsection \<open>The aggregator\<close>

text \<open>
  Claim C2 is not met by the service's copy of \<open>derive_customer_features\<close>: it ends in
  \<open>AttributeError\<close> on the sample (as on every table), where the script's copy returns
  the feature rows with their favourite categories.
\<close>

theorem derive_customer_features_app_raises:
  "derive_customer_features_app sample_tx = Inl AttributeError
   \<and> derive_customer_features_cli sample_tx = Inr (sample_features, Some 432000000000000)
   \<and> map Fav_Category sample_features = [Val ''Mug'', Val ''Pen'']"
  using derive_sample
  by (simp add: derive_customer_features_app_def sort_values_inplace_def sample_features_def)

lemma derive_customer_features_app_never_returns:
  "derive_customer_features_app df = Inl AttributeError"
  by (simp add: derive_customer_features_app_def sort_values_inplace_def)

text \<open>
  Claim C4 is not met on the service's path: \<open>segment_customers\<close> hands the cleaned table
  to \<open>derive_customer_features\<close> without testing it, and on an upload whose rows are all
  cancelled the request ends in \<open>AttributeError\<close>. Neither copy of
  \<open>derive_customer_features\<close> tests for an empty table itself; only the script's \<open>main\<close>
  does, before it calls the function, and there the same upload ends in the empty-input
  error.
\<close>

theorem segment_customers_empty_input:
  "clean_transactions decimal_parsers sample_df_cancelled = Inr []
   \<and> fst (segment_customers decimal_parsers scaler kmeans send True False None
            sample_df_cancelled w) = Inl AttributeError
   \<and> derive_customer_features_app [] = Inl AttributeError
   \<and> fst (main_cli decimal_parsers scaler kmeans send True True None
            sample_df_cancelled w) = Inl EmptyInputError"
  using clean_sample_cancelled
  by (simp add: segment_customers_def main_cli_def derive_customer_features_app_def
        sort_values_inplace_def)

text \<open>On the script's path the claim holds: an empty cleaned table ends \<open>main\<close> in the
  empty-input error, and a non-empty one never does.\<close>

lemma send_loop_error:
  "send_loop prep send limit rs st = (Some e, st') \<Longrightarrow> \<exists>r\<in>set rs. prep r = Abort e"
proof (induction rs arbitrary: st)
  case Nil
  then show ?case by simp
next
  case (Cons r rs)
  show ?case
  proof (cases "prep r")
    case Skip
    with Cons show ?thesis by auto
  next
    case (Abort x)
    with Cons.prems show ?thesis by simp
  next
    case (Message email subject body)
    obtain ok w where s: "send email subject body (world st) = (ok, w)"
      by (cases "send email subject body (world st)")
    from Cons.prems Message s obtain st1 where "send_loop prep send limit rs st1 = (Some e, st')"
      by (cases ok) (auto simp: Let_def split: if_splits)
    from Cons.IH [OF this] show ?thesis by auto
  qed
qed

lemma generate_email_cli_error:
  "generate_email_cli name segment days fav = Inl e \<Longrightarrow> e = TypeError \<or> e = ValueError"
  by (auto simp: generate_email_cli_def py_int_def Let_def split: if_splits sum.splits cell.splits)

lemma prep_cli_abort: "prep_cli r = Abort e \<Longrightarrow> e = TypeError \<or> e = ValueError"
  by (auto simp: prep_cli_def Let_def split: if_splits sum.splits prod.splits
        dest: generate_email_cli_error)

lemma main_cli_empty_input:
  assumes "clean_transactions P df = Inr tx" and "dry_run \<or> credentials"
  shows "fst (main_cli P scaler kmeans send credentials dry_run limit df w) = Inl EmptyInputError
           \<longleftrightarrow> tx = []"
proof (cases "tx = []")
  case True
  with assms show ?thesis by (auto simp: main_cli_def)
next
  case False
  obtain fs snap where d: "derive_customer_features_cli tx = Inr (fs, snap)"
    by (simp add: derive_customer_features_cli_def)
  have "fst (main_cli P scaler kmeans send credentials dry_run limit df w) \<noteq> Inl EmptyInputError"
  proof (cases "score_segments fs scaler kmeans")
    case (Inl e)
    then have "e = ValueError" by (auto simp: score_segments_def Let_def split: if_splits)
    with Inl d assms False show ?thesis by (auto simp: main_cli_def)
  next
    case (Inr rs)
    obtain err st where l: "send_loop prep_cli send limit rs (no_mail w) = (err, st)"
      by (cases "send_loop prep_cli send limit rs (no_mail w)")
    have "err \<noteq> Some EmptyInputError"
      using send_loop_error [of prep_cli send limit rs "no_mail w" EmptyInputError st] l
            prep_cli_abort by fastforce
    with Inr d assms False l show ?thesis
      by (cases err) (auto simp: main_cli_def)
  qed
  with False show ?thesis by simp
qed

text \<open>
  Claim C5. In every feature row that \<open>derive_customer_features\<close> returns for a table
  whose rows all carry an invoice date, \<open>Recency\<close> equals \<open>Last_Purchase_Days_Ago\<close>, and
  both are the whole days between the snapshot date (the latest invoice date of the whole
  table plus one day) and the latest invoice date of the row's customer.
\<close>

theorem recency_equals_days_ago:
  assumes run: "derive_customer_features_cli df = Inr (fs, snap)
                \<or> derive_customer_features_app df = Inr (fs, snap)"
    and dated: "\<forall>r\<in>set df. InvoiceDate r \<noteq> None"
    and f: "f \<in> set fs"
  shows "Recency f = Last_Purchase_Days_Ago f
       \<and> snap = Some (Max {t. \<exists>r\<in>set df. InvoiceDate r = Some t} + day)
       \<and> Last_Purchase f
           = Some (Max {t. \<exists>r\<in>set df. CustomerID r = Some (CustomerID_f f)
                                        \<and> InvoiceDate r = Some t})
       \<and> Recency f
           = Some ((Max {t. \<exists>r\<in>set df. InvoiceDate r = Some t} + day
                    - Max {t. \<exists>r\<in>set df. CustomerID r = Some (CustomerID_f f)
                                          \<and> InvoiceDate r = Some t}) div day)"
proof -
  from derive_rows [OF run] obtain agg where snap: "snap = snapshot_date df"
    and fs: "fs = merge_features df agg" by blast
  from f fs obtain c where c: "c \<in> set (customer_keys df)" and fc: "f = feature_row df agg c"
    by (auto simp: set_merge_features)
  from c obtain r where r: "r \<in> set df" "CustomerID r = Some c"
    by (auto simp: set_customer_keys)
  from r dated obtain t where t: "InvoiceDate r = Some t" by auto
  have all: "{t. \<exists>r\<in>set df. InvoiceDate r = Some t} \<noteq> {}" using r t by blast
  have grp: "{t. \<exists>r\<in>set (group_rows df c). InvoiceDate r = Some t}
           = {t. \<exists>r\<in>set df. CustomerID r = Some c \<and> InvoiceDate r = Some t}"
    by (auto simp: set_group_rows)
  have grp_ne: "{t. \<exists>r\<in>set df. CustomerID r = Some c \<and> InvoiceDate r = Some t} \<noteq> {}"
    using r t by blast
  have s: "snapshot_date df = Some (Max {t. \<exists>r\<in>set df. InvoiceDate r = Some t} + day)"
    using all by (simp add: snapshot_date_def max_opt_dates)
  have l: "last_purchase df c
         = Some (Max {t. \<exists>r\<in>set df. CustomerID r = Some c \<and> InvoiceDate r = Some t})"
    using grp_ne by (simp add: last_purchase_def max_opt_dates grp)
  show ?thesis
    using s l by (simp add: fc snap feature_row_def recency_def days_between_def)
qed

theorem recency_equals_days_ago_witness:
  "derive_customer_features_cli sample_tx = Inr (sample_features, Some 432000000000000)
   \<and> list_all (\<lambda>r. InvoiceDate r \<noteq> None) sample_tx
   \<and> hd sample_features \<in> set sample_features
   \<and> CustomerID_f (hd sample_features) = 7
   \<and> Recency (hd sample_features) = Some 3
   \<and> Last_Purchase_Days_Ago (hd sample_features) = Some 3
   \<and> Max {t. \<exists>r\<in>set sample_tx. InvoiceDate r = Some t} + day = 432000000000000
   \<and> Max {t. \<exists>r\<in>set sample_tx. CustomerID r = Some 7 \<and> InvoiceDate r = Some t}
       = 172800000000000
   \<and> (432000000000000 - 172800000000000) div day = 3"
proof -
  have run: "derive_customer_features_cli sample_tx = Inr (sample_features, Some 432000000000000)
             \<or> derive_customer_features_app sample_tx
                 = Inr (sample_features, Some 432000000000000)"
    using derive_sample by simp
  have dated: "\<forall>r\<in>set sample_tx. InvoiceDate r \<noteq> None" by (simp add: sample_tx_def)
  have mem: "hd sample_features \<in> set sample_features" by (simp add: sample_features_def)
  have c: "CustomerID_f (hd sample_features) = 7"
      "Recency (hd sample_features) = Some 3"
      "Last_Purchase_Days_Ago (hd sample_features) = Some 3"
      "Last_Purchase (hd sample_features) = Some 172800000000000"
    by (simp_all add: sample_features_def)
  from recency_equals_days_ago [OF run dated mem]
  have "Some 432000000000000 = Some (Max {t. \<exists>r\<in>set sample_tx. InvoiceDate r = Some t} + day)"
    and "Last_Purchase (hd sample_features)
           = Some (Max {t. \<exists>r\<in>set sample_tx. CustomerID r = Some (CustomerID_f (hd sample_features))
                                        \<and> InvoiceDate r = Some t})"
    by blast+
  then have m: "Max {t. \<exists>r\<in>set sample_tx. InvoiceDate r = Some t} + day = 432000000000000"
    and l: "Max {t. \<exists>r\<in>set sample_tx. CustomerID r = Some 7 \<and> InvoiceDate r = Some t}
              = 172800000000000"
    by (simp_all only: c option.inject)
  have d: "(432000000000000 - 172800000000000) div day = (3::int)" by (simp add: day_def)
  have la: "list_all (\<lambda>r. InvoiceDate r \<noteq> None) sample_tx" by (simp add: sample_tx_def)
  from derive_sample la mem c(1,2,3) m l d show ?thesis by (intro conjI)
qed

text \<open>
  Claim C10. For every customer with a row in the table, the returned feature rows hold
  exactly one row of that customer, and its \<open>Frequency\<close> is the number of distinct invoice
  ids among that customer's rows, hence at least 1.
\<close>

theorem frequency_counts_distinct_invoices:
  assumes run: "derive_customer_features_cli df = Inr (fs, snap)
                \<or> derive_customer_features_app df = Inr (fs, snap)"
    and c: "r0 \<in> set df" "CustomerID r0 = Some c"
  shows "\<exists>f\<in>set fs. CustomerID_f f = c
           \<and> (\<forall>g\<in>set fs. CustomerID_f g = c \<longrightarrow> g = f)
           \<and> Frequency f = card (InvoiceNo ` {r \<in> set df. CustomerID r = Some c})
           \<and> 1 \<le> Frequency f"
proof -
  from derive_rows [OF run] obtain agg where fs: "fs = merge_features df agg" by blast
  have ck: "c \<in> set (customer_keys df)" using c by (auto simp: set_customer_keys)
  define f where "f = feature_row df agg c"
  have fin: "f \<in> set fs" using ck by (simp add: fs set_merge_features f_def)
  have fc: "CustomerID_f f = c" by (simp add: f_def feature_row_def)
  have "inj_on CustomerID_f (set fs)"
    using distinct_merge_features [of df agg] by (simp only: fs distinct_map)
  then have uniq: "\<forall>g\<in>set fs. CustomerID_f g = c \<longrightarrow> g = f"
    using fin fc by (auto simp: inj_on_def)
  have fr: "Frequency f = card (InvoiceNo ` {r \<in> set df. CustomerID r = Some c})"
    by (simp add: f_def feature_row_def frequency_card)
  have "r0 \<in> {r \<in> set df. CustomerID r = Some c}" using c by simp
  then have "InvoiceNo ` {r \<in> set df. CustomerID r = Some c} \<noteq> {}" by blast
  moreover have "finite (InvoiceNo ` {r \<in> set df. CustomerID r = Some c})" by simp
  ultimately have "0 < card (InvoiceNo ` {r \<in> set df. CustomerID r = Some c})"
    by (simp only: card_gt_0_iff simp_thms)
  with fr have "1 \<le> Frequency f" by simp
  with fin fc uniq fr show ?thesis by blast
qed

theorem frequency_counts_distinct_invoices_witness:
  "derive_customer_features_cli sample_tx = Inr (sample_features, Some 432000000000000)
   \<and> hd sample_tx \<in> set sample_tx \<and> CustomerID (hd sample_tx) = Some 7
   \<and> (\<exists>f\<in>set sample_features. CustomerID_f f = 7
         \<and> Frequency f = card (InvoiceNo ` {r \<in> set sample_tx. CustomerID r = Some 7})
         \<and> 1 \<le> Frequency f)
   \<and> Frequency (hd sample_features) = 1"
proof -
  have run: "derive_customer_features_cli sample_tx = Inr (sample_features, Some 432000000000000)
             \<or> derive_customer_features_app sample_tx
                 = Inr (sample_features, Some 432000000000000)"
    using derive_sample by simp
  have mem: "hd sample_tx \<in> set sample_tx" and cu: "CustomerID (hd sample_tx) = Some 7"
    by (simp_all add: sample_tx_def)
  from frequency_counts_distinct_invoices [OF run mem cu]
  have e: "\<exists>f\<in>set sample_features. CustomerID_f f = 7
         \<and> Frequency f = card (InvoiceNo ` {r \<in> set sample_tx. CustomerID r = Some 7})
         \<and> 1 \<le> Frequency f"
    by blast
  have "Frequency (hd sample_features) = 1" by (simp add: sample_features_def)
  with derive_sample mem cu e show ?thesis by (intro conjI)
qed

subsection \<open>The send loops\<close>








text \<open>With the limit 1 the loop is over after the first delivery and never reaches
  the second row, which would raise; with the limit 2 it reaches it.\<close>

lemma send_loop_stops_before_next_row:
  "send_loop prep_app always_delivers (Some 1) sample_rows_nan_name (no_mail ())
     = (None, \<lparr> sent = 1, attempts = [(''ann@example.com'', True)], world = () \<rparr>)"
  "send_loop prep_app always_delivers (Some 2) sample_rows_nan_name (no_mail ())
     = (Some AttributeError,
        \<lparr> sent = 1, attempts = [(''ann@example.com'', True)], world = () \<rparr>)"
  by (simp_all add: sample_rows_nan_name_def prep_app_def contains_at_def generate_email_app_def
        or_strip_def or_else_def strip_def is_space_def vip_email_def always_delivers_def
        no_mail_def limit_reached_def Let_def)




subsection \<open>The favourite category in the script's copy\<close>

lemma find_filter: "find P xs = (case filter P xs of [] \<Rightarrow> None | x # _ \<Rightarrow> Some x)"
  by (induction xs) auto

text \<open>The head of a stable sort: a least key, and the first row of the input with
  that key.\<close>

lemma hd_sort_key:
  assumes "xs \<noteq> []"
  shows "hd (sort_key f xs) \<in> set xs"
    and "\<forall>y\<in>set xs. f (hd (sort_key f xs)) \<le> f y"
    and "hd (filter (\<lambda>y. f y = f (hd (sort_key f xs))) xs) = hd (sort_key f xs)"
proof -
  define m where "m = hd (sort_key f xs)"
  from assms have "sort_key f xs \<noteq> []" by (metis length_0_conv length_sort)
  then obtain rest where s: "sort_key f xs = m # rest"
    by (cases "sort_key f xs") (auto simp: m_def)
  have eq: "set (m # rest) = set xs" using s by (metis set_sort)
  then have 1: "m \<in> set xs" by auto
  have "sorted (map f (m # rest))" using s by (metis sorted_sort_key)
  then have "\<forall>y\<in>set (m # rest). f m \<le> f y" by auto
  with eq have 2: "\<forall>y\<in>set xs. f m \<le> f y" by simp
  have "filter (\<lambda>y. f y = f m) xs = filter (\<lambda>y. f y = f m) (m # rest)"
    using sort_key_stable [of f "f m" xs] s by simp
  then have 3: "hd (filter (\<lambda>y. f y = f m) xs) = m" by simp
  from 1 show "hd (sort_key f xs) \<in> set xs" by (simp only: m_def)
  from 2 show "\<forall>y\<in>set xs. f (hd (sort_key f xs)) \<le> f y" by (simp only: m_def)
  from 3 show "hd (filter (\<lambda>y. f y = f (hd (sort_key f xs))) xs) = hd (sort_key f xs)"
    by (simp only: m_def)
qed

lemma prod_agg_group_customer: "p \<in> set (prod_agg_group df c) \<Longrightarrow> CustomerID_p p = c"
  by (auto simp: prod_agg_group_def)

lemma filter_other_groups:
  "c \<notin> set ks \<Longrightarrow> filter (\<lambda>p. CustomerID_p p = c) (concat (map (prod_agg_group df) ks)) = []"
  by (induction ks) (auto simp: filter_empty_conv dest: prod_agg_group_customer)

lemma filter_own_group:
  "distinct ks \<Longrightarrow> c \<in> set ks \<Longrightarrow>
     filter (\<lambda>p. CustomerID_p p = c) (concat (map (prod_agg_group df) ks)) = prod_agg_group df c"
proof (induction ks)
  case Nil
  then show ?case by simp
next
  case (Cons k ks)
  show ?case
  proof (cases "k = c")
    case True
    have "filter (\<lambda>p. CustomerID_p p = c) (prod_agg_group df c) = prod_agg_group df c"
      by (simp add: filter_id_conv prod_agg_group_customer)
    moreover have "c \<notin> set ks" using Cons.prems True by simp
    ultimately show ?thesis using True by (simp add: filter_other_groups)
  next
    case False
    have "filter (\<lambda>p. CustomerID_p p = c) (prod_agg_group df k) = []"
      using False by (auto simp: filter_empty_conv dest: prod_agg_group_customer)
    with Cons False show ?thesis by simp
  qed
qed

text \<open>
  The content of claim C2, for the script's copy: the favourite category of a feature
  row is a description of the customer's rows with the highest summed quantity, among
  those with the highest summed line total, and among those the first in the order of
  \<open>prod_agg\<close>, which lists a customer's descriptions in ascending order.
\<close>

lemma fav_category_cli:
  assumes run: "derive_customer_features_cli df = Inr (fs, snap)" and f: "f \<in> set fs"
  shows "\<exists>d \<in> Description ` set (group_rows df (CustomerID_f f)).
           Fav_Category f = Val d
         \<and> (\<forall>d' \<in> Description ` set (group_rows df (CustomerID_f f)).
               summed_quantity df (CustomerID_f f) d' < summed_quantity df (CustomerID_f f) d
             \<or> (summed_quantity df (CustomerID_f f) d' = summed_quantity df (CustomerID_f f) d
                \<and> (summed_revenue df (CustomerID_f f) d' < summed_revenue df (CustomerID_f f) d
                   \<or> (summed_revenue df (CustomerID_f f) d' = summed_revenue df (CustomerID_f f) d
                      \<and> d \<le> d'))))"
proof -
  define agg where "agg = sort_values_prod (prod_agg df)"
  define key where "key = (\<lambda>p :: prod_row. (CustomerID_p p, - Qty p, - Rev p))"
  from run have fs: "fs = merge_features df agg"
    by (simp add: derive_customer_features_cli_def agg_def)
  from f fs obtain c where c: "c \<in> set (customer_keys df)" and fc: "f = feature_row df agg c"
    by (auto simp: set_merge_features)
  have cf: "CustomerID_f f = c" by (simp add: fc feature_row_def)
  define ds where "ds = sort (remdups (map Description (group_rows df c)))"
  define mk where "mk = (\<lambda>d. \<lparr> CustomerID_p = c, Description_p = d,
                 Qty = summed_quantity df c d, Rev = summed_revenue df c d \<rparr>)"
  have grp: "prod_agg_group df c = map mk ds" by (simp add: prod_agg_group_def mk_def ds_def)
  have set_ds: "set ds = Description ` set (group_rows df c)" by (simp add: ds_def)
  from c have "group_rows df c \<noteq> []"
    by (auto simp: set_customer_keys group_rows_def filter_empty_conv)
  then have ne: "map mk ds \<noteq> []" using set_ds by (cases ds) auto
  have own: "filter (\<lambda>p. CustomerID_p p = c) agg = sort_key key (map mk ds)"
    using filter_own_group [OF distinct_customer_keys c, of df]
    by (simp add: agg_def sort_values_prod_def prod_agg_def filter_sort grp key_def)
  define m where "m = hd (sort_key key (map mk ds))"
  have "sort_key key (map mk ds) \<noteq> []" using ne by (metis length_0_conv length_sort)
  then have fav: "Fav_Category f = Val (Description_p m)"
    by (cases "sort_key key (map mk ds)")
       (simp_all add: fc feature_row_def fav_category_def find_filter own m_def)
  from hd_sort_key [OF ne, of key] have m_in: "m \<in> set (map mk ds)"
    and least: "\<forall>y\<in>set (map mk ds). key m \<le> key y"
    and first: "hd (filter (\<lambda>y. key y = key m) (map mk ds)) = m"
    by (simp_all add: m_def)
  from m_in obtain d where d: "d \<in> set ds" and md: "m = mk d" by auto
  have "summed_quantity df c d' < summed_quantity df c d
      \<or> (summed_quantity df c d' = summed_quantity df c d
         \<and> (summed_revenue df c d' < summed_revenue df c d
            \<or> (summed_revenue df c d' = summed_revenue df c d \<and> d \<le> d')))"
    if d': "d' \<in> set ds" for d'
  proof -
    from least d' have le: "key (mk d) \<le> key (mk d')" by (simp add: md)
    show ?thesis
    proof (cases "key (mk d') = key (mk d)")
      case True
      define ds' where "ds' = filter (\<lambda>x. key (mk x) = key (mk d)) ds"
      have "filter (\<lambda>y. key y = key m) (map mk ds) = map mk ds'"
        by (simp add: filter_map o_def md ds'_def)
      with first have hd_eq: "hd (map mk ds') = mk d" by (simp add: md)
      have d'in: "d' \<in> set ds'" using d' True by (simp add: ds'_def)
      then obtain x xs where xs: "ds' = x # xs" by (cases ds') auto
      with hd_eq have "mk x = mk d" by simp
      then have "x = d" by (simp add: mk_def)
      have "sorted ds'" unfolding ds'_def ds_def by (rule sorted_wrt_filter) simp
      with xs \<open>x = d\<close> d'in have "d \<le> d'" by auto
      with True show ?thesis by (simp add: key_def mk_def)
    next
      case False
      with le have "key (mk d) < key (mk d')" by simp
      then show ?thesis by (auto simp: key_def mk_def less_prod_def split: if_splits)
    qed
  qed
  with d fav show ?thesis by (auto simp: cf md mk_def set_ds [symmetric])
qed

text \<open>The feature rows leave the aggregator by descending \<open>Monetary\<close>, the scorer keeps
  their order, and so does the construction of the response rows.\<close>

lemma merge_features_descending:
  "sorted (map (\<lambda>f. - Monetary f) (merge_features df agg))"
  by (simp add: merge_features_def)

lemma score_segments_keeps_order:
  assumes "score_segments features scaler kmeans = Inr out"
  shows "map feature.truncate out = features"
proof -
  have "map feature.truncate (map2 add_cluster fs cs) = fs" if "length fs = length cs"
    for fs :: "feature list" and cs
    using that by (induction fs cs rule: list_induct2) simp_all
  with assms show ?thesis
    by (auto simp: score_segments_def Let_def split: if_splits)
qed

end
